theory Spec2Isabelle
  imports Main "HOL-Library.Sublist"
begin

section \<open>JavaScript values used by the withdrawal flow\<close>

text \<open>
  A property of a JavaScript object is in one of three conditions: the key is not in the
  object, the key is in the object and holds \<open>undefined\<close>, or it holds a value. The
  reducer tells the first two apart (\<open>"details" in state\<close>), so the model does too.
\<close>

datatype 'a slot = Absent | Undef | Val 'a

text \<open>\<open>k in obj\<close>.\<close>

fun has :: "'a slot \<Rightarrow> bool" where
  "has Absent = False"
| "has Undef = True"
| "has (Val v) = True"

text \<open>\<open>obj.k\<close>; \<open>None\<close> stands for \<open>undefined\<close>.\<close>

fun read :: "'a slot \<Rightarrow> 'a option" where
  "read Absent = None"
| "read Undef = None"
| "read (Val v) = Some v"

text \<open>\<open>k: e\<close> inside an object literal: the key is there whatever \<open>e\<close> evaluates to.\<close>

fun put :: "'a option \<Rightarrow> 'a slot" where
  "put None = Undef"
| "put (Some v) = Val v"

text \<open>
  A number, as far as this program can observe one: whether it is falsy (zero), and the
  text its conversion to a string gives. Which digits a given double prints as is the
  engine's business and is not computed here.
\<close>

datatype number = Number bool string

text \<open>
  Values of type \<open>any\<close>: what a response body parses to, and \<open>undefined\<close> for a
  property that is not there.
\<close>

datatype jsval =
    JUndefined
  | JNull
  | JBool bool
  | JNum number
  | JStr string
  | JArr "jsval list"
  | JObj "(string \<times> jsval) list"

text \<open>
  What a \<open>throw\<close> carries: an \<open>Error(message)\<close> made by the program or by the HTTP
  client, or the engine's \<open>TypeError\<close> for a value it cannot convert to a string.
\<close>

datatype error = Error string | TypeError

section \<open>Transfer server handle\<close>

record TransferOptions =
  lang :: "string option"
  walletName :: "string option"
  walletURL :: "string option"

text \<open>
  The object returned by \<open>TransferServer(serverURL, options)\<close>: its two getters. The
  asynchronous fetch methods close over the same two values and are not part of the data.
\<close>

record TransferServer =
  url :: string
  options :: TransferOptions

section \<open>States and actions of the withdrawal state machine\<close>

text \<open>
  \<open>GeneralWithdrawalDetails\<close>, and \<open>Partial<GeneralWithdrawalDetails>\<close> when some
  slot is not a value. The asset is a class instance of the Stellar SDK and stays abstract.
\<close>

record 'a Details =
  asset :: "'a slot"
  withdrawalFormValues :: "(string \<rightharpoonup> string) slot"
  "method" :: "string slot"
  transferServer :: "TransferServer slot"

datatype Step =
    Initial
  | BeforeWebauth
  | AfterWebauth
  | BeforeInteractiveKyc
  | PendingKyc
  | AfterDeniedKyc
  | AfterSuccessfulKyc
  | AfterTxSubmission

text \<open>The string each \<open>step\<close> tag is at run time.\<close>

fun step_name :: "Step \<Rightarrow> string" where
  "step_name Initial = ''initial''"
| "step_name BeforeWebauth = ''before-webauth''"
| "step_name AfterWebauth = ''after-webauth''"
| "step_name BeforeInteractiveKyc = ''before-interactive-kyc''"
| "step_name PendingKyc = ''pending-kyc''"
| "step_name AfterDeniedKyc = ''after-denied-kyc''"
| "step_name AfterSuccessfulKyc = ''after-successful-kyc''"
| "step_name AfterTxSubmission = ''after-tx-submission''"

text \<open>
  A state object at run time: the \<open>step\<close> tag and every property that one of the eight
  interfaces of the \<open>State\<close> union declares. An object spread can leave a property on an
  object whose interface does not declare it, so all of them are kept side by side.
  \<open>'w\<close> is the web authentication challenge (\<open>WebauthData & { transaction }\<close>).
\<close>

record ('a, 'w) State =
  step :: Step
  details :: "'a Details slot"
  webauth :: "'w slot"
  authToken :: "string slot"
  kyc :: "jsval slot"
  kycStatus :: "jsval slot"
  rejection :: "jsval slot"
  withdrawal :: "jsval slot"

datatype ('a, 'w) Action =
    BackToStart
  | SaveInitForm 'a "string \<rightharpoonup> string" string TransferServer "'w option"
  | SetAuthToken "string option"
  | StartInteractiveKyc jsval
  | KycPending jsval
  | KycDenied jsval
  | KycSuccessful jsval
  | TransactionSubmitted

text \<open>\<open>action.type\<close>.\<close>

fun action_type :: "('a, 'w) Action \<Rightarrow> string" where
  "action_type BackToStart = ''back-to-start''"
| "action_type (SaveInitForm a fv m ts w) = ''save-init-form''"
| "action_type (SetAuthToken t) = ''set-auth-token''"
| "action_type (StartInteractiveKyc r) = ''start-interactive-kyc''"
| "action_type (KycPending r) = ''kyc-pending''"
| "action_type (KycDenied r) = ''kyc-denied''"
| "action_type (KycSuccessful r) = ''kyc-successful''"
| "action_type TransactionSubmitted = ''after-tx-submission''"

subsection \<open>Action constructors\<close>

definition backToStart :: "('a, 'w) Action" where
  "backToStart = BackToStart"

definition saveInitFormData ::
  "TransferServer \<Rightarrow> 'a \<Rightarrow> string \<Rightarrow> (string \<rightharpoonup> string) \<Rightarrow> 'w option \<Rightarrow> ('a, 'w) Action" where
  "saveInitFormData ts a m formValues w = SaveInitForm a formValues m ts w"

definition setAuthToken :: "string option \<Rightarrow> ('a, 'w) Action" where
  "setAuthToken token = SetAuthToken token"

definition startInteractiveKYC :: "jsval \<Rightarrow> ('a, 'w) Action" where
  "startInteractiveKYC response = StartInteractiveKyc response"

definition pendingKYC :: "jsval \<Rightarrow> ('a, 'w) Action" where
  "pendingKYC response = KycPending response"

definition failedKYC :: "jsval \<Rightarrow> ('a, 'w) Action" where
  "failedKYC response = KycDenied response"

definition successfulKYC :: "jsval \<Rightarrow> ('a, 'w) Action" where
  "successfulKYC response = KycSuccessful response"

definition transactionSubmitted :: "('a, 'w) Action" where
  "transactionSubmitted = TransactionSubmitted"

subsection \<open>The reducer\<close>

text \<open>An object literal that lists only \<open>step\<close>.\<close>

definition bare :: "Step \<Rightarrow> ('a, 'w) State" where
  "bare s = \<lparr> step = s, details = Absent, webauth = Absent, authToken = Absent,
              kyc = Absent, kycStatus = Absent, rejection = Absent, withdrawal = Absent \<rparr>"

definition initialState :: "('a, 'w) State" where
  "initialState = bare Initial"

text \<open>The details object that \<open>save-init-form\<close> builds from the action.\<close>

definition assemble ::
  "'a \<Rightarrow> (string \<rightharpoonup> string) \<Rightarrow> string \<Rightarrow> TransferServer \<Rightarrow> 'a Details" where
  "assemble a formValues m ts =
     \<lparr> asset = Val a, withdrawalFormValues = Val formValues, method = Val m,
       transferServer = Val ts \<rparr>"

text \<open>The message of the guard shared by the four KYC actions.\<close>

definition cannot_perform :: "('a, 'w) Action \<Rightarrow> ('a, 'w) State \<Rightarrow> error" where
  "cannot_perform action state =
     Error (''Cannot perform '' @ action_type action @ '' in state '' @ step_name (step state) @ ''.'')"

text \<open>
  \<open>stateMachine(state, action)\<close>. The \<open>default\<close> branch of the switch has no
  counterpart: the action type is closed, so no ninth tag exists.
\<close>

fun stateMachine :: "('a, 'w) State \<Rightarrow> ('a, 'w) Action \<Rightarrow> error + ('a, 'w) State" where
  "stateMachine state BackToStart =
     Inr ((bare Initial)
       \<lparr> details := put (if has (details state) then read (details state) else None) \<rparr>)"
| "stateMachine state (SaveInitForm a formValues m ts w) =
     (case w of
        Some challenge \<Rightarrow>
          Inr ((bare BeforeWebauth)
            \<lparr> details := Val (assemble a formValues m ts), webauth := Val challenge \<rparr>)
      | None \<Rightarrow>
          Inr ((bare AfterWebauth)
            \<lparr> authToken := Undef, details := Val (assemble a formValues m ts) \<rparr>))"
| "stateMachine state (SetAuthToken token) =
     (if step state \<noteq> BeforeWebauth then Inl (Error ''Cannot set auth token at this time.'')
      else Inr (state \<lparr> step := AfterWebauth, authToken := put token \<rparr>))"
| "stateMachine state (StartInteractiveKyc response) =
     (if \<not> has (details state) \<or> step state = Initial
      then Inl (cannot_perform (StartInteractiveKyc response) state)
      else Inr ((bare BeforeInteractiveKyc)
        \<lparr> details := put (read (details state)), kyc := Val response \<rparr>))"
| "stateMachine state (KycPending response) =
     (if \<not> has (details state) \<or> step state = Initial
      then Inl (cannot_perform (KycPending response) state)
      else Inr ((bare PendingKyc)
        \<lparr> details := put (read (details state)), kycStatus := Val response \<rparr>))"
| "stateMachine state (KycDenied response) =
     (if \<not> has (details state) \<or> step state = Initial
      then Inl (cannot_perform (KycDenied response) state)
      else Inr ((bare AfterDeniedKyc)
        \<lparr> details := put (read (details state)), rejection := Val response \<rparr>))"
| "stateMachine state (KycSuccessful response) =
     (if \<not> has (details state) \<or> step state = Initial
      then Inl (cannot_perform (KycSuccessful response) state)
      else Inr ((bare AfterSuccessfulKyc)
        \<lparr> details := put (read (details state)), withdrawal := Val response \<rparr>))"
| "stateMachine state TransactionSubmitted = Inr (bare AfterTxSubmission)"

text \<open>The caller threads one state through the reducer; the first throw ends the run.\<close>

fun run :: "('a, 'w) State \<Rightarrow> ('a, 'w) Action list \<Rightarrow> error + ('a, 'w) State" where
  "run state [] = Inr state"
| "run state (action # rest) =
     (case stateMachine state action of
        Inl e \<Rightarrow> Inl e
      | Inr state' \<Rightarrow> run state' rest)"

subsection \<open>Vocabulary for the properties\<close>

text \<open>The property holds a value (it is there and is not \<open>undefined\<close>).\<close>

fun holds :: "'a slot \<Rightarrow> bool" where
  "holds (Val v) = True"
| "holds Absent = False"
| "holds Undef = False"

text \<open>All four members of \<open>GeneralWithdrawalDetails\<close> hold a value.\<close>

definition populated :: "'a Details \<Rightarrow> bool" where
  "populated d \<longleftrightarrow>
     holds (asset d) \<and> holds (withdrawalFormValues d) \<and> holds (method d) \<and> holds (transferServer d)"

text \<open>The four actions whose branch reads \<open>state.details\<close> behind the details guard.\<close>

fun is_kyc_action :: "('a, 'w) Action \<Rightarrow> bool" where
  "is_kyc_action (StartInteractiveKyc r) = True"
| "is_kyc_action (KycPending r) = True"
| "is_kyc_action (KycDenied r) = True"
| "is_kyc_action (KycSuccessful r) = True"
| "is_kyc_action BackToStart = False"
| "is_kyc_action (SaveInitForm a fv m ts w) = False"
| "is_kyc_action (SetAuthToken t) = False"
| "is_kyc_action TransactionSubmitted = False"

text \<open>
  The members each interface of the \<open>State\<close> union requires, by step. Optional members
  (\<open>details\<close> of \<open>InitialState\<close>, \<open>webauth\<close>, \<open>authToken\<close>) are not constrained.
\<close>

fun well_typed :: "('a, 'w) State \<Rightarrow> bool" where
  "well_typed state =
     (case step state of
        Initial \<Rightarrow> True
      | BeforeWebauth \<Rightarrow> (case details state of Val d \<Rightarrow> populated d | _ \<Rightarrow> False)
      | AfterWebauth \<Rightarrow> (case details state of Val d \<Rightarrow> populated d | _ \<Rightarrow> False)
      | BeforeInteractiveKyc \<Rightarrow>
          (case details state of Val d \<Rightarrow> populated d | _ \<Rightarrow> False) \<and> holds (kyc state)
      | PendingKyc \<Rightarrow>
          (case details state of Val d \<Rightarrow> populated d | _ \<Rightarrow> False) \<and> holds (kycStatus state)
      | AfterDeniedKyc \<Rightarrow>
          (case details state of Val d \<Rightarrow> populated d | _ \<Rightarrow> False) \<and> holds (rejection state)
      | AfterSuccessfulKyc \<Rightarrow>
          (case details state of Val d \<Rightarrow> populated d | _ \<Rightarrow> False) \<and> holds (withdrawal state)
      | AfterTxSubmission \<Rightarrow> True)"

text \<open>What every state of a run from \<open>initialState\<close> satisfies.\<close>

definition details_invariant :: "('a, 'w) State \<Rightarrow> bool" where
  "details_invariant state =
     (case step state of
        Initial \<Rightarrow> True
      | AfterTxSubmission \<Rightarrow> \<not> has (details state)
      | _ \<Rightarrow> (case details state of Val d \<Rightarrow> populated d | _ \<Rightarrow> False))"

section \<open>The withdraw request\<close>

datatype MemoType = Hash | Id | Text

record WithdrawalOptions =
  account :: string
  dest :: string
  dest_extra :: string
  memo :: "string option"
  memo_type :: "MemoType option"
  wallet_name :: "string option"
  wallet_url :: "string option"

text \<open>\<open>{ ...options, type, asset_code: assetCode }\<close>.\<close>

record Params = WithdrawalOptions +
  type :: string
  asset_code :: string




subsection \<open>Conversions the code relies on\<close>






fun join_comma :: "string list \<Rightarrow> string" where
  "join_comma [] = []"
| "join_comma [x] = x"
| "join_comma (x # y # ys) = x @ '','' @ join_comma (y # ys)"

text \<open>
  What a template literal \<open>`${v}`\<close> inserts, or the \<open>TypeError\<close> it throws. A parsed
  body holds no function, so an object with a key \<open>toString\<close> of its own has nothing
  callable to convert it and the conversion throws; any other object prints as
  \<open>[object Object]\<close>. An array joins the texts of its elements with commas, \<open>null\<close> and
  \<open>undefined\<close> elements counting as empty, and throws where an element does.
\<close>

fun template_string :: "jsval \<Rightarrow> error + string"
  and template_elements :: "jsval list \<Rightarrow> error + string list" where
  "template_string JUndefined = Inr ''undefined''"
| "template_string JNull = Inr ''null''"
| "template_string (JBool b) = Inr (if b then ''true'' else ''false'')"
| "template_string (JNum (Number falsy shown)) = Inr shown"
| "template_string (JStr s) = Inr s"
| "template_string (JArr xs) =
     (case template_elements xs of
        Inl e \<Rightarrow> Inl e
      | Inr parts \<Rightarrow> Inr (join_comma parts))"
| "template_string (JObj kvs) =
     (if ''toString'' \<in> set (map fst kvs) then Inl TypeError else Inr ''[object Object]'')"
| "template_elements [] = Inr []"
| "template_elements (x # xs) =
     (case (if x = JNull \<or> x = JUndefined then Inr [] else template_string x) of
        Inl e \<Rightarrow> Inl e
      | Inr part \<Rightarrow>
          (case template_elements xs of
             Inl e \<Rightarrow> Inl e
           | Inr parts \<Rightarrow> Inr (part # parts)))"

subsection \<open>withdraw\<close>


section \<open>Sample values\<close>

text \<open>Concrete values on which the theorems below are exercised.\<close>

definition sample_server :: TransferServer where
  "sample_server =
     \<lparr> url = ''https://anchor.example/transfer'',
       options = \<lparr> lang = None, walletName = None, walletURL = None \<rparr> \<rparr>"

definition sample_details :: "string Details" where
  "sample_details = assemble ''EURT'' [''dest'' \<mapsto> ''DE00 1234''] ''bank_account'' sample_server"

definition sample_before_webauth :: "(string, string) State" where
  "sample_before_webauth =
     (bare BeforeWebauth) \<lparr> details := Val sample_details, webauth := Val ''challenge'' \<rparr>"

definition sample_pending :: "(string, string) State" where
  "sample_pending =
     (bare PendingKyc)
       \<lparr> details := Val sample_details, kycStatus := Val (JObj [(''status'', JStr ''pending'')]) \<rparr>"

definition sample_partial_initial :: "(string, string) State" where
  "sample_partial_initial =
     (bare Initial)
       \<lparr> details := Val \<lparr> asset = Val ''EURT'', withdrawalFormValues = Absent,
                          method = Undef, transferServer = Absent \<rparr> \<rparr>"




section \<open>Properties of the reducer\<close>

lemma put_read: "has s \<Longrightarrow> put (read s) = s"
  by (cases s) simp_all

text \<open>
  C1. \<open>set-auth-token(t)\<close> on a state whose step is \<open>before-webauth\<close> succeeds with a
  state whose step is \<open>after-webauth\<close>, whose \<open>authToken\<close> reads as \<open>t\<close> and whose
  details are those of the state it came from; on a state with any other step it throws
  the error "Cannot set auth token at this time." and returns no state.
\<close>

theorem set_auth_token_transition:
  "(step S = BeforeWebauth \<longrightarrow>
      (\<exists>S'. stateMachine S (setAuthToken t) = Inr S' \<and> step S' = AfterWebauth
            \<and> read (authToken S') = t \<and> details S' = details S))
   \<and> (step S \<noteq> BeforeWebauth \<longrightarrow>
      stateMachine S (setAuthToken t) = Inl (Error ''Cannot set auth token at this time.''))"
  by (cases t) (simp_all add: setAuthToken_def)

theorem set_auth_token_transition_witness:
  "step sample_before_webauth = BeforeWebauth
   \<and> (\<exists>S'. stateMachine sample_before_webauth (setAuthToken (Some ''tok2'')) = Inr S'
            \<and> step S' = AfterWebauth \<and> read (authToken S') = Some ''tok2''
            \<and> details S' = details sample_before_webauth)
   \<and> step sample_pending \<noteq> BeforeWebauth
   \<and> stateMachine sample_pending (setAuthToken (Some ''tok1''))
       = Inl (Error ''Cannot set auth token at this time.'')"
proof -
  have before: "step sample_before_webauth = BeforeWebauth"
    by (simp add: sample_before_webauth_def bare_def)
  have other: "step sample_pending \<noteq> BeforeWebauth"
    by (simp add: sample_pending_def bare_def)
  from before other
    set_auth_token_transition [of sample_before_webauth "Some ''tok2''"]
    set_auth_token_transition [of sample_pending "Some ''tok1''"]
  show ?thesis by simp
qed

text \<open>
  C3. \<open>back-to-start\<close> succeeds on every state and returns the object
  \<open>{ step: "initial", details }\<close>: when the state has a \<open>details\<close> property, the
  result's \<open>details\<close> is that same property (partial details of an \<open>initial\<close> state
  included); when the state has none, the result's \<open>details\<close> reads as \<open>undefined\<close>.
  No other property is carried over.
\<close>

theorem back_to_start_result:
  "\<exists>S'. stateMachine S backToStart = Inr S'
        \<and> S' = (bare Initial) \<lparr> details := (if has (details S) then details S else Undef) \<rparr>
        \<and> step S' = Initial
        \<and> (has (details S) \<longrightarrow> details S' = details S)
        \<and> (\<not> has (details S) \<longrightarrow> read (details S') = None)"
  by (cases "details S") (simp_all add: backToStart_def bare_def)

theorem back_to_start_result_witness:
  "has (details sample_partial_initial)
   \<and> (\<exists>S'. stateMachine sample_partial_initial backToStart = Inr S' \<and> step S' = Initial
            \<and> details S' = details sample_partial_initial)
   \<and> \<not> has (details (bare AfterTxSubmission :: (string, string) State))
   \<and> (\<exists>S'. stateMachine (bare AfterTxSubmission :: (string, string) State) backToStart = Inr S'
            \<and> step S' = Initial \<and> read (details S') = None)"
proof -
  have partial: "has (details sample_partial_initial)"
    by (simp add: sample_partial_initial_def bare_def)
  have none: "\<not> has (details (bare AfterTxSubmission :: (string, string) State))"
    by (simp add: bare_def)
  from partial back_to_start_result [of sample_partial_initial]
  have first: "\<exists>S'. stateMachine sample_partial_initial backToStart = Inr S' \<and> step S' = Initial
                 \<and> details S' = details sample_partial_initial"
    by blast
  from none back_to_start_result [of "bare AfterTxSubmission :: (string, string) State"]
  have second: "\<exists>S'. stateMachine (bare AfterTxSubmission :: (string, string) State) backToStart = Inr S'
                  \<and> step S' = Initial \<and> read (details S') = None"
    by blast
  from partial none first second show ?thesis by blast
qed

lemma well_typed_has_details:
  "well_typed S \<Longrightarrow> step S \<noteq> Initial \<Longrightarrow> step S \<noteq> AfterTxSubmission \<Longrightarrow>
   \<exists>d. details S = Val d \<and> populated d \<and> has (details S)"
  by (cases "step S"; cases "details S") simp_all

lemma kyc_action_from_initial:
  "is_kyc_action a \<Longrightarrow> step S = Initial \<Longrightarrow> stateMachine S a = Inl (cannot_perform a S)"
  by (cases a) simp_all

lemma kyc_action_without_key:
  "is_kyc_action a \<Longrightarrow> \<not> has (details S) \<Longrightarrow> stateMachine S a = Inl (cannot_perform a S)"
  by (cases a) simp_all

lemma kyc_action_carries_details:
  "is_kyc_action a \<Longrightarrow> has (details S) \<Longrightarrow> step S \<noteq> Initial \<Longrightarrow>
   \<exists>S'. stateMachine S a = Inr S' \<and> details S' = details S"
  by (cases a) (simp_all add: put_read bare_def)

text \<open>
  C4. From a state whose step is \<open>initial\<close>, with or without (partial) details, each of
  \<open>start-interactive-kyc\<close>, \<open>kyc-pending\<close>, \<open>kyc-denied\<close> and \<open>kyc-successful\<close>
  throws "Cannot perform <action type> in state initial." and returns no state.
\<close>

theorem kyc_actions_illegal_from_initial:
  assumes "step S = Initial"
      and "a \<in> {startInteractiveKYC r, pendingKYC r, failedKYC r, successfulKYC r}"
  shows "stateMachine S a
           = Inl (Error (''Cannot perform '' @ action_type a @ '' in state initial.''))"
proof -
  from assms(2) have "is_kyc_action a"
    by (auto simp: startInteractiveKYC_def pendingKYC_def failedKYC_def successfulKYC_def)
  then have "stateMachine S a = Inl (cannot_perform a S)"
    using assms(1) by (rule kyc_action_from_initial)
  with assms(1) show ?thesis by (simp add: cannot_perform_def)
qed

theorem kyc_actions_illegal_from_initial_witness:
  "stateMachine sample_partial_initial (pendingKYC (JObj [(''status'', JStr ''pending'')]))
     = Inl (Error ''Cannot perform kyc-pending in state initial.'')
   \<and> stateMachine (initialState :: (string, string) State) (successfulKYC JNull)
     = Inl (Error ''Cannot perform kyc-successful in state initial.'')"
proof -
  have s1: "step sample_partial_initial = Initial"
    by (simp add: sample_partial_initial_def bare_def)
  have s2: "step (initialState :: (string, string) State) = Initial"
    by (simp add: initialState_def bare_def)
  from kyc_actions_illegal_from_initial [OF s1, of "pendingKYC (JObj [(''status'', JStr ''pending'')])"
      "JObj [(''status'', JStr ''pending'')]"]
    kyc_actions_illegal_from_initial [OF s2, of "successfulKYC JNull" JNull]
  show ?thesis by (simp add: pendingKYC_def successfulKYC_def)
qed

text \<open>
  C5. \<open>save-init-form\<close> succeeds on every state. With a challenge in the action the
  result is exactly \<open>{ step: "before-webauth", details, webauth }\<close>, the details
  assembled from the action's asset, form values, method and transfer server and
  \<open>webauth\<close> the challenge; without one it is exactly
  \<open>{ step: "after-webauth", authToken: undefined, details }\<close> with the same assembled
  details. The state it is applied to has no influence on the result.
\<close>

theorem save_init_form_result:
  "stateMachine S (saveInitFormData ts a m fv (Some c))
     = Inr \<lparr> step = BeforeWebauth,
             details = Val \<lparr> asset = Val a, withdrawalFormValues = Val fv, method = Val m,
                              transferServer = Val ts \<rparr>,
             webauth = Val c, authToken = Absent, kyc = Absent, kycStatus = Absent,
             rejection = Absent, withdrawal = Absent \<rparr>
   \<and> stateMachine S (saveInitFormData ts a m fv None)
     = Inr \<lparr> step = AfterWebauth,
             details = Val \<lparr> asset = Val a, withdrawalFormValues = Val fv, method = Val m,
                              transferServer = Val ts \<rparr>,
             webauth = Absent, authToken = Undef, kyc = Absent, kycStatus = Absent,
             rejection = Absent, withdrawal = Absent \<rparr>
   \<and> stateMachine S (saveInitFormData ts a m fv w) = stateMachine T (saveInitFormData ts a m fv w)"
  by (simp add: saveInitFormData_def bare_def assemble_def)

theorem save_init_form_result_witness:
  "stateMachine sample_pending (saveInitFormData sample_server ''EURT'' ''cash'' Map.empty (Some ''C''))
     = Inr \<lparr> step = BeforeWebauth,
             details = Val \<lparr> asset = Val ''EURT'', withdrawalFormValues = Val Map.empty,
                              method = Val ''cash'', transferServer = Val sample_server \<rparr>,
             webauth = Val ''C'', authToken = Absent, kyc = Absent, kycStatus = Absent,
             rejection = Absent, withdrawal = Absent \<rparr>
   \<and> stateMachine sample_pending
         (saveInitFormData sample_server ''EURT'' ''cash'' Map.empty (None :: string option))
     = Inr \<lparr> step = AfterWebauth,
             details = Val \<lparr> asset = Val ''EURT'', withdrawalFormValues = Val Map.empty,
                              method = Val ''cash'', transferServer = Val sample_server \<rparr>,
             webauth = Absent, authToken = Undef, kyc = Absent, kycStatus = Absent,
             rejection = Absent, withdrawal = Absent \<rparr>"
  using save_init_form_result [of sample_pending sample_server "''EURT''" "''cash''" Map.empty "''C''"]
  by blast

text \<open>
  C6. On a state that has details and whose step is one of \<open>before-webauth\<close>,
  \<open>after-webauth\<close>, \<open>before-interactive-kyc\<close>, \<open>pending-kyc\<close>, \<open>after-denied-kyc\<close>
  and \<open>after-successful-kyc\<close>, each of the four KYC actions succeeds, and the
  \<open>details\<close> of the resulting state is the \<open>details\<close> of the state it was applied to.
  (The reducer allocates and mutates nothing on this path, so the same value is the
  same object.)
\<close>

theorem kyc_actions_keep_details:
  assumes "step S \<in> {BeforeWebauth, AfterWebauth, BeforeInteractiveKyc, PendingKyc,
                      AfterDeniedKyc, AfterSuccessfulKyc}"
      and "has (details S)"
      and "a \<in> {startInteractiveKYC r, pendingKYC r, failedKYC r, successfulKYC r}"
  shows "\<exists>S'. stateMachine S a = Inr S' \<and> details S' = details S"
proof -
  from assms(3) have "is_kyc_action a"
    by (auto simp: startInteractiveKYC_def pendingKYC_def failedKYC_def successfulKYC_def)
  moreover from assms(1) have "step S \<noteq> Initial" by auto
  ultimately show ?thesis using assms(2) by (simp add: kyc_action_carries_details)
qed

theorem kyc_actions_keep_details_witness:
  "\<exists>S'. stateMachine sample_pending (failedKYC (JObj [(''status'', JStr ''denied'')])) = Inr S'
        \<and> details S' = Val sample_details"
proof -
  have s: "step sample_pending \<in> {BeforeWebauth, AfterWebauth, BeforeInteractiveKyc, PendingKyc,
                                   AfterDeniedKyc, AfterSuccessfulKyc}"
    by (simp add: sample_pending_def bare_def)
  have d: "has (details sample_pending)"
    by (simp add: sample_pending_def bare_def)
  have a: "failedKYC (JObj [(''status'', JStr ''denied'')])
             \<in> {startInteractiveKYC (JObj [(''status'', JStr ''denied'')]),
                 pendingKYC (JObj [(''status'', JStr ''denied'')]),
                 failedKYC (JObj [(''status'', JStr ''denied'')]),
                 (successfulKYC (JObj [(''status'', JStr ''denied'')]) :: (string, string) Action)}"
    by simp
  from kyc_actions_keep_details [OF s d a]
  show ?thesis by (simp add: sample_pending_def bare_def)
qed

text \<open>
  C7. The \<open>after-tx-submission\<close> action succeeds on every state, and the result is the
  object \<open>{ step: "after-tx-submission" }\<close>: no other property is in it.
\<close>

theorem transaction_submitted_result:
  "stateMachine S transactionSubmitted
     = Inr \<lparr> step = AfterTxSubmission, details = Absent, webauth = Absent, authToken = Absent,
             kyc = Absent, kycStatus = Absent, rejection = Absent, withdrawal = Absent \<rparr>"
  by (simp add: transactionSubmitted_def bare_def)

theorem transaction_submitted_result_witness:
  "stateMachine sample_pending transactionSubmitted
     = Inr \<lparr> step = AfterTxSubmission, details = Absent, webauth = Absent, authToken = Absent,
             kyc = Absent, kycStatus = Absent, rejection = Absent, withdrawal = Absent \<rparr>"
  by (rule transaction_submitted_result [of sample_pending])

text \<open>
  C9. \<open>back-to-start\<close> is idempotent: it succeeds on every state, and applied to its own
  result it succeeds again and returns that result unchanged.
\<close>

theorem back_to_start_idempotent:
  "\<exists>S'. stateMachine S backToStart = Inr S' \<and> stateMachine S' backToStart = Inr S'"
  by (cases "details S") (simp_all add: backToStart_def bare_def)

theorem back_to_start_idempotent_witness:
  "\<exists>S'. stateMachine sample_pending backToStart = Inr S' \<and> stateMachine S' backToStart = Inr S'"
  by (rule back_to_start_idempotent [of sample_pending])

text \<open>
  C10. \<open>set-auth-token\<close> on a \<open>before-webauth\<close> state that carries the challenge \<open>c\<close>
  returns the state itself with \<open>step\<close> and \<open>authToken\<close> overwritten (an object
  spread): besides step \<open>after-webauth\<close>, the token and the details, the result still
  has the \<open>webauth\<close> property, equal to \<open>c\<close>.
\<close>

theorem set_auth_token_keeps_webauth:
  assumes "step S = BeforeWebauth" and "webauth S = Val c"
  shows "\<exists>S'. stateMachine S (setAuthToken t) = Inr S'
             \<and> S' = S \<lparr> step := AfterWebauth, authToken := put t \<rparr>
             \<and> webauth S' = Val c \<and> step S' = AfterWebauth \<and> read (authToken S') = t
             \<and> details S' = details S"
  using assms by (cases t) (simp_all add: setAuthToken_def)

theorem set_auth_token_keeps_webauth_witness:
  "\<exists>S'. stateMachine sample_before_webauth (setAuthToken (Some ''tok2'')) = Inr S'
        \<and> webauth S' = Val ''challenge'' \<and> step S' = AfterWebauth
        \<and> read (authToken S') = Some ''tok2''"
proof -
  have s: "step sample_before_webauth = BeforeWebauth"
    by (simp add: sample_before_webauth_def bare_def)
  have w: "webauth sample_before_webauth = Val ''challenge''"
    by (simp add: sample_before_webauth_def bare_def)
  from set_auth_token_keeps_webauth [OF s w, of "Some ''tok2''"]
  show ?thesis by blast
qed

lemma populated_assemble: "populated (assemble a fv m ts)"
  by (simp add: populated_def assemble_def)

lemma invariant_initial: "details_invariant initialState"
  by (simp add: details_invariant_def initialState_def bare_def)

lemma invariant_has_details:
  "details_invariant S \<Longrightarrow> step S \<noteq> Initial \<Longrightarrow> step S \<noteq> AfterTxSubmission \<Longrightarrow>
   \<exists>d. details S = Val d \<and> populated d"
  by (cases "step S"; cases "details S") (simp_all add: details_invariant_def)

lemma invariant_no_value:
  "details_invariant S \<Longrightarrow> \<not> holds (details S) \<Longrightarrow> step S = Initial \<or> \<not> has (details S)"
  by (cases "step S"; cases "details S") (simp_all add: details_invariant_def)

lemma invariant_step:
  assumes "details_invariant S" and "stateMachine S a = Inr S'"
  shows "details_invariant S'"
proof (cases a)
  case BackToStart
  with assms(2) show ?thesis
    by (auto simp: details_invariant_def bare_def)
next
  case (SaveInitForm x fv m ts w)
  with assms(2) show ?thesis
    by (cases w) (auto simp: details_invariant_def bare_def populated_assemble)
next
  case (SetAuthToken t)
  with assms(2) have b: "step S = BeforeWebauth"
    and r: "S' = S \<lparr> step := AfterWebauth, authToken := put t \<rparr>"
    by (auto split: if_splits)
  from assms(1) b obtain d where "details S = Val d" "populated d"
    using invariant_has_details by fastforce
  with r show ?thesis by (simp add: details_invariant_def)
next
  case (StartInteractiveKyc r)
  with assms(2) have h: "has (details S)" "step S \<noteq> Initial"
    and r: "S' = (bare BeforeInteractiveKyc) \<lparr> details := put (read (details S)), kyc := Val r \<rparr>"
    by (auto split: if_splits)
  from assms(1) h have "step S \<noteq> AfterTxSubmission" by (auto simp: details_invariant_def)
  with assms(1) h obtain d where "details S = Val d" "populated d"
    using invariant_has_details by blast
  with r show ?thesis by (simp add: details_invariant_def bare_def)
next
  case (KycPending r)
  with assms(2) have h: "has (details S)" "step S \<noteq> Initial"
    and r: "S' = (bare PendingKyc) \<lparr> details := put (read (details S)), kycStatus := Val r \<rparr>"
    by (auto split: if_splits)
  from assms(1) h have "step S \<noteq> AfterTxSubmission" by (auto simp: details_invariant_def)
  with assms(1) h obtain d where "details S = Val d" "populated d"
    using invariant_has_details by blast
  with r show ?thesis by (simp add: details_invariant_def bare_def)
next
  case (KycDenied r)
  with assms(2) have h: "has (details S)" "step S \<noteq> Initial"
    and r: "S' = (bare AfterDeniedKyc) \<lparr> details := put (read (details S)), rejection := Val r \<rparr>"
    by (auto split: if_splits)
  from assms(1) h have "step S \<noteq> AfterTxSubmission" by (auto simp: details_invariant_def)
  with assms(1) h obtain d where "details S = Val d" "populated d"
    using invariant_has_details by blast
  with r show ?thesis by (simp add: details_invariant_def bare_def)
next
  case (KycSuccessful r)
  with assms(2) have h: "has (details S)" "step S \<noteq> Initial"
    and r: "S' = (bare AfterSuccessfulKyc) \<lparr> details := put (read (details S)), withdrawal := Val r \<rparr>"
    by (auto split: if_splits)
  from assms(1) h have "step S \<noteq> AfterTxSubmission" by (auto simp: details_invariant_def)
  with assms(1) h obtain d where "details S = Val d" "populated d"
    using invariant_has_details by blast
  with r show ?thesis by (simp add: details_invariant_def bare_def)
next
  case TransactionSubmitted
  with assms(2) show ?thesis
    by (auto simp: details_invariant_def bare_def)
qed

lemma invariant_run:
  "details_invariant S \<Longrightarrow> run S actions = Inr S' \<Longrightarrow> details_invariant S'"
proof (induction actions arbitrary: S)
  case Nil
  then show ?case by simp
next
  case (Cons a rest)
  from Cons.prems(2) obtain T where t: "stateMachine S a = Inr T" and r: "run T rest = Inr S'"
    by (auto split: sum.splits)
  from Cons.prems(1) t have "details_invariant T" by (rule invariant_step)
  then show ?case using r by (rule Cons.IH)
qed

text \<open>
  C2. Every state that a run of successful transitions from \<open>initialState\<close> ends in,
  unless its step is \<open>initial\<close> or \<open>after-tx-submission\<close>, has a \<open>details\<close> value in
  which asset, form values, method and transfer server all hold a value. When such a
  reachable state holds no details value, each of the four actions that read the details
  throws "Cannot perform ... in state ..." and returns no state; the same is so for any
  state object at all that has no \<open>details\<close> key.
\<close>

theorem reachable_states_carry_details:
  assumes "run initialState actions = Inr S"
  shows "(step S \<noteq> Initial \<and> step S \<noteq> AfterTxSubmission \<longrightarrow>
            (\<exists>d. details S = Val d \<and> populated d))
       \<and> (\<forall>a. is_kyc_action a \<and> \<not> holds (details S) \<longrightarrow>
            stateMachine S a = Inl (cannot_perform a S))
       \<and> (\<forall>T a. is_kyc_action a \<and> \<not> has (details T) \<longrightarrow>
            stateMachine T a = Inl (cannot_perform a (T :: ('a, 'w) State)))"
proof -
  from invariant_initial assms have inv: "details_invariant S" by (rule invariant_run)
  then have first: "step S \<noteq> Initial \<and> step S \<noteq> AfterTxSubmission \<longrightarrow>
                      (\<exists>d. details S = Val d \<and> populated d)"
    using invariant_has_details by blast
  have second: "\<forall>a. is_kyc_action a \<and> \<not> holds (details S) \<longrightarrow>
                  stateMachine S a = Inl (cannot_perform a S)"
    using inv invariant_no_value kyc_action_from_initial kyc_action_without_key by blast
  have third: "\<forall>T a. is_kyc_action a \<and> \<not> has (details T) \<longrightarrow>
                 stateMachine T a = Inl (cannot_perform a (T :: ('a, 'w) State))"
    using kyc_action_without_key by blast
  from first second third show ?thesis by blast
qed

theorem reachable_states_carry_details_witness:
  "run (initialState :: (string, string) State)
       [saveInitFormData sample_server ''EURT'' ''bank_account'' [''dest'' \<mapsto> ''DE00 1234'']
          (Some ''challenge''),
        setAuthToken (Some ''tok2''),
        pendingKYC (JObj [(''status'', JStr ''pending'')])]
     = Inr sample_pending
   \<and> step sample_pending \<noteq> Initial \<and> step sample_pending \<noteq> AfterTxSubmission
   \<and> (\<exists>d. details sample_pending = Val d \<and> populated d)
   \<and> run (initialState :: (string, string) State)
       [saveInitFormData sample_server ''EURT'' ''bank_account'' Map.empty None,
        successfulKYC (JObj [(''account_id'', JStr ''GXYZ'')]),
        transactionSubmitted]
     = Inr (bare AfterTxSubmission)
   \<and> \<not> holds (details (bare AfterTxSubmission :: (string, string) State))
   \<and> stateMachine (bare AfterTxSubmission :: (string, string) State) (failedKYC JNull)
     = Inl (Error ''Cannot perform kyc-denied in state after-tx-submission.'')"
proof -
  have r1: "run (initialState :: (string, string) State)
       [saveInitFormData sample_server ''EURT'' ''bank_account'' [''dest'' \<mapsto> ''DE00 1234'']
          (Some ''challenge''),
        setAuthToken (Some ''tok2''),
        pendingKYC (JObj [(''status'', JStr ''pending'')])]
     = Inr sample_pending"
    by (simp add: initialState_def saveInitFormData_def setAuthToken_def pendingKYC_def
        sample_pending_def sample_details_def bare_def)
  have r2: "run (initialState :: (string, string) State)
       [saveInitFormData sample_server ''EURT'' ''bank_account'' Map.empty None,
        successfulKYC (JObj [(''account_id'', JStr ''GXYZ'')]),
        transactionSubmitted]
     = Inr (bare AfterTxSubmission)"
    by (simp add: initialState_def saveInitFormData_def successfulKYC_def transactionSubmitted_def
        bare_def)
  have s1: "step sample_pending \<noteq> Initial \<and> step sample_pending \<noteq> AfterTxSubmission"
    by (simp add: sample_pending_def bare_def)
  have s2: "\<not> holds (details (bare AfterTxSubmission :: (string, string) State))"
    by (simp add: bare_def)
  have k: "is_kyc_action (failedKYC JNull :: (string, string) Action)"
    by (simp add: failedKYC_def)
  from reachable_states_carry_details [OF r1] s1
  have first: "\<exists>d. details sample_pending = Val d \<and> populated d"
    by blast
  from reachable_states_carry_details [OF r2] s2 k
  have "stateMachine (bare AfterTxSubmission :: (string, string) State) (failedKYC JNull)
          = Inl (cannot_perform (failedKYC JNull) (bare AfterTxSubmission :: (string, string) State))"
    by blast
  then have second: "stateMachine (bare AfterTxSubmission :: (string, string) State) (failedKYC JNull)
          = Inl (Error ''Cannot perform kyc-denied in state after-tx-submission.'')"
    by (simp add: cannot_perform_def failedKYC_def bare_def)
  from r1 r2 s1 s2 first second show ?thesis by blast
qed









end
